theory Spec2Isabelle
  imports Complex_Main "HOL-Library.Multiset"
begin

section \<open>Data model\<close>

text \<open>
  The development embeds \<^verbatim>\<open>modules/hybrid_strategy.py\<close> and
  \<^verbatim>\<open>modules/backtest_engine.py\<close>. Python floats are modelled as exact reals, so
  every statement below is about the arithmetic the code writes down, not about rounding.
  Raised exceptions are values of \<open>py_error\<close>.
\<close>

datatype py_error = ZeroDivisionError | IndexError

datatype MarketState = BULL | BEAR | RANGE

datatype OrderSide = BUY | SELL

text \<open>
  The reason strings of the source are formatted texts; the model keeps which text was
  chosen and the number that is formatted into it.
\<close>

datatype reason =
    NoReason
  | BullInitial
  | BullPullback real
  | RangeInitial
  | GridBuy real
  | BearBottom real
  | BullTakeProfit real
  | GridTakeProfit real
  | BearTakeProfit real
  | BearStopLoss real
  | EndOfBacktest

record Position =
  entry_price :: real
  amount :: real
  entry_time :: string

record TradeSignal =
  s_side :: OrderSide
  s_price :: real
  s_amount :: real
  s_reason :: reason
  s_timestamp :: string

record HybridStrategy =
  positions :: "Position list"
  grid_center :: real
  last_buy_price :: real
  last_sell_price :: real
  total_position :: real
  total_cost :: real

record Trade =
  t_timestamp :: string
  t_side :: string
  t_price :: real
  t_amount :: real
  t_pnl :: real
  t_balance :: real
  t_reason :: reason

text \<open>
  \<open>BacktestResult\<close> without \<^verbatim>\<open>sharpe_ratio\<close>: that field is a quotient of a
  sample mean and a sample standard deviation computed by pandas and scaled by a square
  root, which has no counterpart in this embedding.
\<close>

record BacktestResult =
  total_trades :: nat
  winning_trades :: nat
  losing_trades :: nat
  win_rate :: real
  total_pnl :: real
  total_pnl_pct :: real
  max_drawdown :: real
  max_drawdown_pct :: real
  r_trades :: "Trade list"
  r_equity_curve :: "real list"

record BacktestEngine =
  cash :: real
  strategy :: HybridStrategy
  trades :: "Trade list"
  equity_curve :: "real list"

text \<open>
  The module \<^verbatim>\<open>config\<close> (\<^verbatim>\<open>GRID_CONFIG\<close>, \<^verbatim>\<open>BACKTEST_CONFIG\<close>,
  \<^verbatim>\<open>RISK_CONFIG\<close>) is not part of the sources; the constants read from it are the
  fields of a parameter.
\<close>

record Config =
  min_grid_size :: real
  max_grid_size :: real
  order_amount :: real
  initial_capital :: real
  commission_rate :: real
  max_position_ratio :: real

text \<open>One row of the data frame, with the columns the engine reads.\<close>

record Bar =
  Date :: string
  Close :: real
  EMA_fast :: real
  EMA_slow :: real
  EMA_trend :: real
  ATR_pct :: real

section \<open>The strategy\<close>

definition init_strategy :: HybridStrategy where
  "init_strategy =
     \<lparr>positions = [], grid_center = 0, last_buy_price = 0, last_sell_price = 0,
      total_position = 0, total_cost = 0\<rparr>"

definition detect_market_state :: "real \<Rightarrow> real \<Rightarrow> real \<Rightarrow> real \<Rightarrow> MarketState" where
  "detect_market_state price ema_fast ema_slow ema_trend =
     (if price > ema_trend \<and> ema_fast > ema_slow then BULL
      else if price < ema_trend \<and> ema_fast < ema_slow then BEAR
      else RANGE)"

text \<open>\<^verbatim>\<open>np.clip(a, lo, hi)\<close> is \<^verbatim>\<open>minimum(maximum(a, lo), hi)\<close>.\<close>

definition np_clip :: "real \<Rightarrow> real \<Rightarrow> real \<Rightarrow> real" where
  "np_clip a lo hi = min (max a lo) hi"

text \<open>The buy logic of \<^verbatim>\<open>process\<close>: \<open>None\<close> is \<^verbatim>\<open>should_buy = False\<close>.\<close>

fun buy_decision :: "MarketState \<Rightarrow> real \<Rightarrow> real \<Rightarrow> real \<Rightarrow> reason option" where
  "buy_decision BULL lbp price grid_size =
     (if lbp = 0 then Some BullInitial
      else if price \<le> lbp * (1 - grid_size) then Some (BullPullback (grid_size * 100))
      else None)"
| "buy_decision RANGE lbp price grid_size =
     (if lbp = 0 then Some RangeInitial
      else if price \<le> lbp * (1 - grid_size) then Some (GridBuy (grid_size * 100))
      else None)"
| "buy_decision BEAR lbp price grid_size =
     (if lbp > 0 \<and> price \<le> lbp * (1 - grid_size * 2) then Some (BearBottom (grid_size * 200))
      else None)"

text \<open>The sell test of one lot, given its \<^verbatim>\<open>profit_pct\<close>.\<close>

fun sell_decision :: "MarketState \<Rightarrow> real \<Rightarrow> real \<Rightarrow> reason option" where
  "sell_decision BULL profit_pct grid_size =
     (if profit_pct \<ge> grid_size * 2 then Some (BullTakeProfit (profit_pct * 100)) else None)"
| "sell_decision RANGE profit_pct grid_size =
     (if profit_pct \<ge> grid_size then Some (GridTakeProfit (profit_pct * 100)) else None)"
| "sell_decision BEAR profit_pct grid_size =
     (if profit_pct \<ge> grid_size * 0.5 then Some (BearTakeProfit (profit_pct * 100))
      else if profit_pct \<le> - grid_size * 3 then Some (BearStopLoss (profit_pct * 100))
      else None)"

text \<open>
  The loop \<^verbatim>\<open>for i, pos in enumerate(self.positions)\<close> that fills
  \<^verbatim>\<open>positions_to_sell\<close>. The division by \<^verbatim>\<open>pos.entry_price\<close> raises when that
  price is zero, before anything is returned.
\<close>

fun positions_to_sell ::
  "MarketState \<Rightarrow> real \<Rightarrow> real \<Rightarrow> nat \<Rightarrow> Position list \<Rightarrow> py_error + (nat \<times> Position \<times> reason) list"
where
  "positions_to_sell st price grid_size i [] = Inr []"
| "positions_to_sell st price grid_size i (pos # ps) =
     (if entry_price pos = 0 then Inl ZeroDivisionError
      else
        (case positions_to_sell st price grid_size (Suc i) ps of
           Inl e \<Rightarrow> Inl e
         | Inr rest \<Rightarrow>
             (case sell_decision st ((price - entry_price pos) / entry_price pos) grid_size of
                None \<Rightarrow> Inr rest
              | Some r \<Rightarrow> Inr ((i, pos, r) # rest))))"

definition sell_signal :: "real \<Rightarrow> string \<Rightarrow> nat \<times> Position \<times> reason \<Rightarrow> TradeSignal" where
  "sell_signal price timestamp x =
     (case x of (i, pos, r) \<Rightarrow>
        \<lparr>s_side = SELL, s_price = price, s_amount = amount pos, s_reason = r,
         s_timestamp = timestamp\<rparr>)"

definition process ::
  "Config \<Rightarrow> HybridStrategy \<Rightarrow> real \<Rightarrow> real \<Rightarrow> real \<Rightarrow> real \<Rightarrow> real \<Rightarrow> string
     \<Rightarrow> py_error + TradeSignal list"
where
  "process cfg s price ema_fast ema_slow ema_trend atr_pct timestamp =
     (let state = detect_market_state price ema_fast ema_slow ema_trend;
          grid_size = np_clip (atr_pct * 2.5) (min_grid_size cfg) (max_grid_size cfg);
          signals =
            (case buy_decision state (last_buy_price s) price grid_size of
               None \<Rightarrow> []
             | Some r \<Rightarrow>
                 [\<lparr>s_side = BUY, s_price = price, s_amount = order_amount cfg, s_reason = r,
                   s_timestamp = timestamp\<rparr>])
      in case positions_to_sell state price grid_size 0 (positions s) of
           Inl e \<Rightarrow> Inl e
         | Inr pts \<Rightarrow> Inr (signals @ map (sell_signal price timestamp) (rev pts)))"

definition execute_buy :: "real \<Rightarrow> real \<Rightarrow> string \<Rightarrow> HybridStrategy \<Rightarrow> HybridStrategy" where
  "execute_buy price amt timestamp s =
     s\<lparr>positions := positions s @ [\<lparr>entry_price = price, amount = amt, entry_time = timestamp\<rparr>],
       last_buy_price := price,
       total_position := total_position s + amt,
       total_cost := total_cost s + price * amt\<rparr>"

text \<open>
  The \<^verbatim>\<open>while remaining > 0 and self.positions\<close> loop of \<^verbatim>\<open>execute_sell\<close>, on
  the loop variables \<^verbatim>\<open>remaining\<close> and \<^verbatim>\<open>total_pnl\<close> and the strategy. After a
  partial sale the condition is tested once more, with \<^verbatim>\<open>remaining = 0\<close>.
\<close>

function sell_loop :: "real \<Rightarrow> real \<Rightarrow> real \<Rightarrow> HybridStrategy \<Rightarrow> real \<times> HybridStrategy" where
  "sell_loop price remaining tot_pnl s =
     (if remaining > 0 \<and> positions s \<noteq> [] then
        (let pos = hd (positions s) in
         if amount pos \<le> remaining then
           sell_loop price (remaining - amount pos)
             (tot_pnl + (price - entry_price pos) * amount pos)
             (s\<lparr>total_position := total_position s - amount pos,
                total_cost := total_cost s - entry_price pos * amount pos,
                positions := tl (positions s)\<rparr>)
         else
           sell_loop price 0
             (tot_pnl + (price - entry_price pos) * remaining)
             (s\<lparr>positions := pos\<lparr>amount := amount pos - remaining\<rparr> # tl (positions s),
                total_position := total_position s - remaining,
                total_cost := total_cost s - entry_price pos * remaining\<rparr>))
      else (tot_pnl, s))"
  by pat_completeness auto
termination
  by (relation "measure (\<lambda>(price, remaining, tot_pnl, s).
        2 * length (positions s) + (if remaining > 0 then 1 else 0))") auto

declare sell_loop.simps [simp del]

definition execute_sell :: "real \<Rightarrow> real \<Rightarrow> HybridStrategy \<Rightarrow> real \<times> HybridStrategy" where
  "execute_sell price amt s =
     (case sell_loop price amt 0 s of
        (tot_pnl, s') \<Rightarrow>
          if positions s' \<noteq> [] then (tot_pnl, s'\<lparr>last_sell_price := price\<rparr>)
          else (tot_pnl, s'\<lparr>last_buy_price := 0, last_sell_price := 0\<rparr>))"

definition get_unrealized_pnl :: "HybridStrategy \<Rightarrow> real \<Rightarrow> real" where
  "get_unrealized_pnl s current_price =
     sum_list (map (\<lambda>pos. (current_price - entry_price pos) * amount pos) (positions s))"

definition get_position_value :: "HybridStrategy \<Rightarrow> real \<Rightarrow> real" where
  "get_position_value s current_price = total_position s * current_price"

section \<open>The backtest engine\<close>

definition init_engine :: "Config \<Rightarrow> BacktestEngine" where
  "init_engine cfg =
     \<lparr>cash = initial_capital cfg, strategy = init_strategy, trades = [], equity_curve = []\<rparr>"

text \<open>The body of \<^verbatim>\<open>for signal in signals\<close> in \<^verbatim>\<open>_process_bar\<close>.\<close>

definition apply_signal ::
  "Config \<Rightarrow> real \<Rightarrow> string \<Rightarrow> BacktestEngine \<Rightarrow> TradeSignal \<Rightarrow> BacktestEngine"
where
  "apply_signal cfg position_ratio timestamp e sg =
     (case s_side sg of
        BUY \<Rightarrow>
          if position_ratio \<ge> max_position_ratio cfg then e
          else
            (let cost = s_price sg * s_amount sg * (1 + commission_rate cfg) in
             if cash e \<ge> cost then
               e\<lparr>cash := cash e - cost,
                 strategy := execute_buy (s_price sg) (s_amount sg) timestamp (strategy e),
                 trades := trades e @
                   [\<lparr>t_timestamp = timestamp, t_side = ''BUY'', t_price = s_price sg,
                     t_amount = s_amount sg, t_pnl = 0, t_balance = cash e - cost,
                     t_reason = s_reason sg\<rparr>]\<rparr>
             else e)
      | SELL \<Rightarrow>
          (case execute_sell (s_price sg) (s_amount sg) (strategy e) of
             (pnl, s') \<Rightarrow>
               (let commission = s_price sg * s_amount sg * commission_rate cfg;
                    cash' = cash e + (s_price sg * s_amount sg - commission)
                in e\<lparr>cash := cash',
                     strategy := s',
                     trades := trades e @
                       [\<lparr>t_timestamp = timestamp, t_side = ''SELL'', t_price = s_price sg,
                         t_amount = s_amount sg, t_pnl = pnl - commission, t_balance = cash',
                         t_reason = s_reason sg\<rparr>]\<rparr>)))"

definition process_bar :: "Config \<Rightarrow> Bar \<Rightarrow> BacktestEngine \<Rightarrow> py_error + BacktestEngine" where
  "process_bar cfg row e =
     (let price = Close row;
          timestamp = Date row;
          equity = cash e + get_position_value (strategy e) price;
          e1 = e\<lparr>equity_curve := equity_curve e @ [equity]\<rparr>;
          position_ratio =
            (if equity > 0 then get_position_value (strategy e) price / equity else 0)
      in case process cfg (strategy e1) price (EMA_fast row) (EMA_slow row) (EMA_trend row)
                (ATR_pct row) timestamp of
           Inl err \<Rightarrow> Inl err
         | Inr signals \<Rightarrow> Inr (foldl (apply_signal cfg position_ratio timestamp) e1 signals))"

text \<open>The body of the loop of \<^verbatim>\<open>_close_all\<close>, for one lot of the copied list.\<close>

definition close_position :: "Config \<Rightarrow> real \<Rightarrow> string \<Rightarrow> BacktestEngine \<Rightarrow> Position \<Rightarrow> BacktestEngine" where
  "close_position cfg price timestamp e pos =
     (let commission = price * amount pos * commission_rate cfg;
          pnl = (price - entry_price pos) * amount pos - commission;
          cash' = cash e + (price * amount pos - commission)
      in e\<lparr>cash := cash',
           trades := trades e @
             [\<lparr>t_timestamp = timestamp, t_side = ''SELL(CLOSE)'', t_price = price,
               t_amount = amount pos, t_pnl = pnl, t_balance = cash',
               t_reason = EndOfBacktest\<rparr>]\<rparr>)"

definition close_all :: "Config \<Rightarrow> real \<Rightarrow> string \<Rightarrow> BacktestEngine \<Rightarrow> BacktestEngine" where
  "close_all cfg price timestamp e =
     (let e' = foldl (close_position cfg price timestamp) e (positions (strategy e))
      in e'\<lparr>strategy := (strategy e')\<lparr>positions := [], total_position := 0\<rparr>\<rparr>)"

text \<open>\<^verbatim>\<open>'SELL' in t.side\<close>: the substring test on strings.\<close>

fun starts_with :: "string \<Rightarrow> string \<Rightarrow> bool" where
  "starts_with [] cs = True"
| "starts_with (p # ps) [] = False"
| "starts_with (p # ps) (c # cs) = (p = c \<and> starts_with ps cs)"

fun str_contains :: "string \<Rightarrow> string \<Rightarrow> bool" where
  "str_contains sub [] = (sub = [])"
| "str_contains sub (c # cs) = (starts_with sub (c # cs) \<or> str_contains sub cs)"

text \<open>
  The drawdown loop of \<^verbatim>\<open>_calculate_result\<close> on the loop variables \<^verbatim>\<open>peak\<close>
  and \<^verbatim>\<open>max_dd\<close>; it returns both as they stand when the loop ends.
\<close>

fun drawdown_loop :: "real list \<Rightarrow> real \<Rightarrow> real \<Rightarrow> real \<times> real" where
  "drawdown_loop [] peak max_dd = (peak, max_dd)"
| "drawdown_loop (eq # eqs) peak max_dd =
     (let peak' = (if eq > peak then eq else peak);
          dd = (if peak' > 0 then (peak' - eq) / peak' else 0)
      in drawdown_loop eqs peak' (max max_dd dd))"

definition calculate_result :: "Config \<Rightarrow> BacktestEngine \<Rightarrow> py_error + BacktestResult" where
  "calculate_result cfg e =
     (let sell_trades = filter (\<lambda>t. str_contains ''SELL'' (t_side t)) (trades e);
          total = length sell_trades;
          winning = length (filter (\<lambda>t. t_pnl t > 0) sell_trades);
          losing = length (filter (\<lambda>t. t_pnl t \<le> 0) sell_trades);
          rate = (if total > 0 then real winning / real total else 0);
          tot_pnl = sum_list (map t_pnl sell_trades)
      in if initial_capital cfg = 0 then Inl ZeroDivisionError
         else
           (let (md, md_pct) =
                  (if equity_curve e \<noteq> [] then
                     (case drawdown_loop (equity_curve e) (hd (equity_curve e)) 0 of
                        (peak, max_dd) \<Rightarrow> (peak * max_dd, max_dd))
                   else (0, 0))
            in Inr \<lparr>total_trades = total, winning_trades = winning, losing_trades = losing,
                    win_rate = rate, total_pnl = tot_pnl,
                    total_pnl_pct = tot_pnl / initial_capital cfg,
                    max_drawdown = md, max_drawdown_pct = md_pct,
                    r_trades = trades e, r_equity_curve = equity_curve e\<rparr>))"

text \<open>The loop \<^verbatim>\<open>for _, row in self.data.iterrows()\<close> of \<^verbatim>\<open>run\<close>.\<close>

fun run_bars :: "Config \<Rightarrow> Bar list \<Rightarrow> BacktestEngine \<Rightarrow> py_error + BacktestEngine" where
  "run_bars cfg [] e = Inr e"
| "run_bars cfg (row # rows) e =
     (case process_bar cfg row e of
        Inl err \<Rightarrow> Inl err
      | Inr e' \<Rightarrow> run_bars cfg rows e')"

text \<open>
  \<^verbatim>\<open>run\<close> up to and including \<^verbatim>\<open>_close_all\<close>: the engine as it is left behind.
  \<^verbatim>\<open>.iloc[-1]\<close> on an empty frame raises \<^verbatim>\<open>IndexError\<close>.
\<close>

definition run_engine :: "Config \<Rightarrow> Bar list \<Rightarrow> py_error + BacktestEngine" where
  "run_engine cfg data =
     (case run_bars cfg data (init_engine cfg) of
        Inl err \<Rightarrow> Inl err
      | Inr e \<Rightarrow>
          if data = [] then Inl IndexError
          else Inr (close_all cfg (Close (last data)) (Date (last data)) e))"

definition run :: "Config \<Rightarrow> Bar list \<Rightarrow> py_error + BacktestResult" where
  "run cfg data =
     (case run_engine cfg data of
        Inl err \<Rightarrow> Inl err
      | Inr e \<Rightarrow> calculate_result cfg e)"

section \<open>Definitions used to state the properties\<close>



text \<open>
  The absolute maximum drawdown as the specification words it: the running peak at the
  point where the largest drawdown fraction is attained (the first such point), times
  that fraction. It is compared below with what \<open>calculate_result\<close> stores.
\<close>

fun spec_drawdown_scan :: "real list \<Rightarrow> real \<Rightarrow> real \<Rightarrow> real \<Rightarrow> real \<times> real" where
  "spec_drawdown_scan [] peak max_dd peak_at_max = (peak_at_max, max_dd)"
| "spec_drawdown_scan (eq # eqs) peak max_dd peak_at_max =
     (let peak' = max peak eq;
          dd = (if peak' > 0 then (peak' - eq) / peak' else 0)
      in if dd > max_dd then spec_drawdown_scan eqs peak' dd peak'
         else spec_drawdown_scan eqs peak' max_dd peak_at_max)"

definition spec_max_drawdown :: "real list \<Rightarrow> real" where
  "spec_max_drawdown curve =
     (case curve of
        [] \<Rightarrow> 0
      | eq # eqs \<Rightarrow> (case spec_drawdown_scan curve eq 0 eq of (p, m) \<Rightarrow> p * m))"

text \<open>
  What \<^verbatim>\<open>process\<close> computes per lot: its \<^verbatim>\<open>profit_pct\<close>, the indices of the
  lots whose sell test succeeds (in ledger order), and the SELL signal made for a lot.
\<close>

definition profit_pct :: "real \<Rightarrow> Position \<Rightarrow> real" where
  "profit_pct price pos = (price - entry_price pos) / entry_price pos"



text \<open>The three side strings the engine writes into its trade log.\<close>

definition engine_side :: "string \<Rightarrow> bool" where
  "engine_side sd \<longleftrightarrow> sd = ''BUY'' \<or> sd = ''SELL'' \<or> sd = ''SELL(CLOSE)''"

text \<open>The cost basis of a ledger: the sum of entry price times amount over its lots.\<close>

definition cost_basis :: "Position list \<Rightarrow> real" where
  "cost_basis ps = sum_list (map (\<lambda>pos. entry_price pos * amount pos) ps)"

text \<open>The fields of a trade record other than the running balance and the reason.\<close>

definition trade_core :: "Trade \<Rightarrow> string \<times> string \<times> real \<times> real \<times> real" where
  "trade_core t = (t_timestamp t, t_side t, t_price t, t_amount t, t_pnl t)"


subsection \<open>Concrete inputs\<close>

definition dip_config :: Config where
  "dip_config =
     \<lparr>min_grid_size = 1/100, max_grid_size = 5/100, order_amount = 1,
      initial_capital = 100, commission_rate = 0, max_position_ratio = 8/10\<rparr>"

definition flat_bar :: "string \<Rightarrow> real \<Rightarrow> Bar" where
  "flat_bar d p =
     \<lparr>Date = d, Close = p, EMA_fast = p, EMA_slow = p, EMA_trend = p, ATR_pct = 1/100\<rparr>"

definition dip_bars :: "Bar list" where
  "dip_bars = [flat_bar ''d1'' 100, flat_bar ''d2'' 50, flat_bar ''d3'' 200]"

definition two_lots :: HybridStrategy where
  "two_lots =
     \<lparr>positions = [\<lparr>entry_price = 100, amount = 1, entry_time = ''t1''\<rparr>,
                   \<lparr>entry_price = 110, amount = 2, entry_time = ''t2''\<rparr>],
      grid_center = 0, last_buy_price = 110, last_sell_price = 0,
      total_position = 3, total_cost = 320\<rparr>"






definition mk_trade :: "string \<Rightarrow> real \<Rightarrow> Trade" where
  "mk_trade sd p =
     \<lparr>t_timestamp = ''t'', t_side = sd, t_price = 100, t_amount = 1, t_pnl = p, t_balance = 0,
      t_reason = NoReason\<rparr>"

definition stats_engine :: BacktestEngine where
  "stats_engine =
     \<lparr>cash = 0, strategy = init_strategy,
      trades = [mk_trade ''BUY'' 0, mk_trade ''SELL'' 5, mk_trade ''SELL'' 0,
                mk_trade ''SELL(CLOSE)'' (- 3)],
      equity_curve = []\<rparr>"

definition open_bars :: "Bar list" where
  "open_bars = [flat_bar ''d1'' 100, flat_bar ''d2'' 50]"

text \<open>The engine after the bar loop over \<open>open_bars\<close>: one lot is still open.\<close>

definition open_engine :: BacktestEngine where
  "open_engine =
     \<lparr>cash = 0,
      strategy = \<lparr>positions = [\<lparr>entry_price = 100, amount = 1, entry_time = ''d1''\<rparr>],
                  grid_center = 0, last_buy_price = 100, last_sell_price = 0,
                  total_position = 1, total_cost = 100\<rparr>,
      trades =
        [\<lparr>t_timestamp = ''d1'', t_side = ''BUY'', t_price = 100, t_amount = 1, t_pnl = 0,
          t_balance = 0, t_reason = RangeInitial\<rparr>],
      equity_curve = [100, 50]\<rparr>"

section \<open>Properties of the sell loop\<close>



lemma sell_loop_empty: "positions s = [] \<Longrightarrow> sell_loop p r t s = (t, s)"
  by (simp add: sell_loop.simps)

lemma sell_loop_stop: "r \<le> 0 \<Longrightarrow> sell_loop p r t s = (t, s)"
  by (simp add: sell_loop.simps)

lemma sell_loop_full:
  "0 < r \<Longrightarrow> positions s = l # ls \<Longrightarrow> amount l \<le> r \<Longrightarrow>
   sell_loop p r t s =
     sell_loop p (r - amount l) (t + (p - entry_price l) * amount l)
       (s\<lparr>total_position := total_position s - amount l,
          total_cost := total_cost s - entry_price l * amount l,
          positions := ls\<rparr>)"
  by (subst sell_loop.simps) simp

lemma sell_loop_partial:
  "0 < r \<Longrightarrow> positions s = l # ls \<Longrightarrow> \<not> amount l \<le> r \<Longrightarrow>
   sell_loop p r t s =
     (t + (p - entry_price l) * r,
      s\<lparr>positions := l\<lparr>amount := amount l - r\<rparr> # ls,
        total_position := total_position s - r,
        total_cost := total_cost s - entry_price l * r\<rparr>)"
  by (subst sell_loop.simps) (simp add: sell_loop_stop)





section \<open>FIFO consumption by \<open>execute_sell\<close>\<close>



section \<open>Composition of sells\<close>







lemma apply_signal_sell:
  "s_side sg = SELL \<Longrightarrow>
   apply_signal cfg pr ts e sg =
     e\<lparr>cash := cash e + (s_price sg * s_amount sg - s_price sg * s_amount sg * commission_rate cfg),
       strategy := snd (execute_sell (s_price sg) (s_amount sg) (strategy e)),
       trades := trades e @
         [\<lparr>t_timestamp = ts, t_side = ''SELL'', t_price = s_price sg, t_amount = s_amount sg,
           t_pnl = fst (execute_sell (s_price sg) (s_amount sg) (strategy e))
                     - s_price sg * s_amount sg * commission_rate cfg,
           t_balance = cash e + (s_price sg * s_amount sg
                         - s_price sg * s_amount sg * commission_rate cfg),
           t_reason = s_reason sg\<rparr>]\<rparr>"
  by (simp add: apply_signal_def Let_def split: prod.splits)





section \<open>Grouping and order of sells\<close>



section \<open>Two evaluated runs\<close>

lemmas run_eval =
  run_def run_engine_def flat_bar_def dip_config_def process_bar_def
  process_def init_engine_def init_strategy_def detect_market_state_def np_clip_def
  get_position_value_def apply_signal_def execute_buy_def execute_sell_def sell_signal_def
  close_all_def close_position_def sell_loop.simps calculate_result_def Let_def

lemma run_engine_dip:
  "run_engine dip_config dip_bars =
     Inr \<lparr>cash = 200,
          strategy = \<lparr>positions = [], grid_center = 0, last_buy_price = 0, last_sell_price = 0,
                      total_position = 0, total_cost = 0\<rparr>,
          trades =
            [\<lparr>t_timestamp = ''d1'', t_side = ''BUY'', t_price = 100, t_amount = 1, t_pnl = 0,
              t_balance = 0, t_reason = RangeInitial\<rparr>,
             \<lparr>t_timestamp = ''d3'', t_side = ''SELL'', t_price = 200, t_amount = 1, t_pnl = 100,
              t_balance = 200, t_reason = GridTakeProfit 100\<rparr>],
          equity_curve = [100, 50, 200]\<rparr>"
  by (simp add: run_eval dip_bars_def)

lemma run_bars_open:
  "run_bars dip_config open_bars (init_engine dip_config) = Inr open_engine"
  by (simp add: run_eval open_bars_def open_engine_def)

lemma run_engine_open:
  "run_engine dip_config open_bars =
     Inr \<lparr>cash = 50,
          strategy = \<lparr>positions = [], grid_center = 0, last_buy_price = 100, last_sell_price = 0,
                      total_position = 0, total_cost = 100\<rparr>,
          trades =
            [\<lparr>t_timestamp = ''d1'', t_side = ''BUY'', t_price = 100, t_amount = 1, t_pnl = 0,
              t_balance = 0, t_reason = RangeInitial\<rparr>,
             \<lparr>t_timestamp = ''d2'', t_side = ''SELL(CLOSE)'', t_price = 50, t_amount = 1,
              t_pnl = - 50, t_balance = 50, t_reason = EndOfBacktest\<rparr>],
          equity_curve = [100, 50]\<rparr>"
  by (simp add: run_eval open_bars_def)

section \<open>Ledger consistency\<close>

lemma foldl_close_position_strategy:
  "strategy (foldl (close_position cfg p ts) e ps) = strategy e"
  by (induction ps arbitrary: e) (simp_all add: close_position_def Let_def)

lemma close_all_strategy:
  "strategy (close_all cfg p ts e) = (strategy e)\<lparr>positions := [], total_position := 0\<rparr>"
  by (simp add: close_all_def Let_def foldl_close_position_strategy)














section \<open>End-of-run close\<close>

lemma foldl_close_position_trades:
  "\<exists>new. trades (foldl (close_position cfg p ts) e ps) = trades e @ new
     \<and> map trade_core new
       = map (\<lambda>pos. (ts, ''SELL(CLOSE)'', p, amount pos,
                (p - entry_price pos) * amount pos - p * amount pos * commission_rate cfg)) ps"
proof (induction ps arbitrary: e)
  case Nil
  then show ?case by simp
next
  case (Cons pos ps)
  obtain new where n: "trades (foldl (close_position cfg p ts) (close_position cfg p ts e pos) ps)
       = trades (close_position cfg p ts e pos) @ new"
    "map trade_core new
       = map (\<lambda>pos. (ts, ''SELL(CLOSE)'', p, amount pos,
                (p - entry_price pos) * amount pos - p * amount pos * commission_rate cfg)) ps"
    using Cons.IH[of "close_position cfg p ts e pos"] by blast
  obtain t where t: "trades (close_position cfg p ts e pos) = trades e @ [t]"
    "trade_core t = (ts, ''SELL(CLOSE)'', p, amount pos,
                (p - entry_price pos) * amount pos - p * amount pos * commission_rate cfg)"
    by (simp add: close_position_def Let_def trade_core_def)
  show ?case
    by (rule exI[of _ "t # new"]) (simp add: n t)
qed

lemma foldl_close_position_cash:
  "cash (foldl (close_position cfg p ts) e ps)
     = cash e + (\<Sum>pos\<leftarrow>ps. p * amount pos - p * amount pos * commission_rate cfg)"
  by (induction ps arbitrary: e) (simp_all add: close_position_def Let_def)

text \<open>
  Claim C5. \<open>close_all\<close> appends exactly one trade per lot of the ledger, in ledger order,
  with side \<^verbatim>\<open>SELL(CLOSE)\<close>, the given price, the lot's amount and the profit
  (price - the lot's own entry price) times amount, less the commission on that lot; cash
  is credited with the proceeds less commission; afterwards the ledger is empty and
  \<open>total_position\<close> is 0. A run on a non-empty frame whose bar loop ends normally calls
  it with the last bar's close price and date.
\<close>

theorem close_all_closes_every_lot:
  "(\<exists>new. trades (close_all cfg p ts e) = trades e @ new
      \<and> map trade_core new
        = map (\<lambda>pos. (ts, ''SELL(CLOSE)'', p, amount pos,
                 (p - entry_price pos) * amount pos - p * amount pos * commission_rate cfg))
            (positions (strategy e)))
   \<and> cash (close_all cfg p ts e)
       = cash e + (\<Sum>pos\<leftarrow>positions (strategy e).
                     p * amount pos - p * amount pos * commission_rate cfg)
   \<and> positions (strategy (close_all cfg p ts e)) = []
   \<and> total_position (strategy (close_all cfg p ts e)) = 0
   \<and> (rows \<noteq> [] \<and> run_bars cfg rows (init_engine cfg) = Inr e \<longrightarrow>
        run_engine cfg rows = Inr (close_all cfg (Close (last rows)) (Date (last rows)) e))"
proof (intro conjI impI)
  show "\<exists>new. trades (close_all cfg p ts e) = trades e @ new
      \<and> map trade_core new
        = map (\<lambda>pos. (ts, ''SELL(CLOSE)'', p, amount pos,
                 (p - entry_price pos) * amount pos - p * amount pos * commission_rate cfg))
            (positions (strategy e))"
    using foldl_close_position_trades[of cfg p ts e "positions (strategy e)"]
    by (simp add: close_all_def Let_def)
  show "cash (close_all cfg p ts e)
       = cash e + (\<Sum>pos\<leftarrow>positions (strategy e).
                     p * amount pos - p * amount pos * commission_rate cfg)"
    by (simp add: close_all_def Let_def foldl_close_position_cash)
  show "positions (strategy (close_all cfg p ts e)) = []"
    by (simp add: close_all_strategy)
  show "total_position (strategy (close_all cfg p ts e)) = 0"
    by (simp add: close_all_strategy)
  assume "rows \<noteq> [] \<and> run_bars cfg rows (init_engine cfg) = Inr e"
  then show "run_engine cfg rows = Inr (close_all cfg (Close (last rows)) (Date (last rows)) e)"
    by (simp add: run_engine_def)
qed

theorem close_all_closes_every_lot_witness:
  "run_engine dip_config open_bars =
     Inr \<lparr>cash = 50,
          strategy = \<lparr>positions = [], grid_center = 0, last_buy_price = 100, last_sell_price = 0,
                      total_position = 0, total_cost = 100\<rparr>,
          trades =
            [\<lparr>t_timestamp = ''d1'', t_side = ''BUY'', t_price = 100, t_amount = 1, t_pnl = 0,
              t_balance = 0, t_reason = RangeInitial\<rparr>,
             \<lparr>t_timestamp = ''d2'', t_side = ''SELL(CLOSE)'', t_price = 50, t_amount = 1,
              t_pnl = - 50, t_balance = 50, t_reason = EndOfBacktest\<rparr>],
          equity_curve = [100, 50]\<rparr>"
proof -
  have a: "open_bars \<noteq> []" by (simp add: open_bars_def)
  have "run_engine dip_config open_bars
      = Inr (close_all dip_config (Close (last open_bars)) (Date (last open_bars)) open_engine)"
    using close_all_closes_every_lot[of dip_config _ _ open_engine open_bars] a run_bars_open
    by blast
  then show ?thesis
    by (simp add: open_engine_def open_bars_def flat_bar_def close_all_def close_position_def
        Let_def dip_config_def)
qed

section \<open>What the end-of-run close leaves behind\<close>

lemma sell_loop_cost_aux:
  "positions s = ps \<Longrightarrow> total_cost s = cost_basis ps \<Longrightarrow>
   total_cost (snd (sell_loop p r t s)) = cost_basis (positions (snd (sell_loop p r t s)))"
proof (induction ps arbitrary: s r t)
  case Nil
  then show ?case by (simp add: sell_loop_empty)
next
  case (Cons l ls)
  note ps = Cons.prems(1)
  consider (stop) "r \<le> 0" | (full) "0 < r" "amount l \<le> r" | (part) "0 < r" "\<not> amount l \<le> r"
    by fastforce
  then show ?case
  proof cases
    case stop
    then show ?thesis using Cons.prems by (simp add: sell_loop_stop)
  next
    case part
    then show ?thesis using Cons.prems
      by (simp add: sell_loop_partial[OF _ ps] cost_basis_def algebra_simps)
  next
    case full
    then show ?thesis
      using Cons.prems by (simp add: sell_loop_full[OF _ ps] Cons.IH cost_basis_def)
  qed
qed

lemma execute_sell_cost:
  assumes "total_cost s = cost_basis (positions s)"
  shows "total_cost (snd (execute_sell p a s)) = cost_basis (positions (snd (execute_sell p a s)))"
proof -
  obtain t' s' where r: "sell_loop p a 0 s = (t', s')" by (cases "sell_loop p a 0 s")
  have "total_cost s' = cost_basis (positions s')"
    using sell_loop_cost_aux[OF refl assms, where p=p and r=a and t=0] r by simp
  then show ?thesis by (simp add: execute_sell_def r)
qed

lemma execute_buy_cost:
  "total_cost s = cost_basis (positions s) \<Longrightarrow>
   total_cost (execute_buy p a ts s) = cost_basis (positions (execute_buy p a ts s))"
  by (simp add: execute_buy_def cost_basis_def)

lemma apply_signal_cost:
  assumes "total_cost (strategy e) = cost_basis (positions (strategy e))"
  shows "total_cost (strategy (apply_signal cfg pr ts e sg))
           = cost_basis (positions (strategy (apply_signal cfg pr ts e sg)))"
proof (cases "s_side sg")
  case BUY
  then show ?thesis
    using assms execute_buy_cost[OF assms, of "s_price sg" "s_amount sg" ts]
    by (simp add: apply_signal_def Let_def)
next
  case SELL
  then show ?thesis
    using execute_sell_cost[OF assms, of "s_price sg" "s_amount sg"]
    by (simp add: apply_signal_sell)
qed

lemma foldl_apply_signal_cost:
  "total_cost (strategy e) = cost_basis (positions (strategy e)) \<Longrightarrow>
   total_cost (strategy (foldl (apply_signal cfg pr ts) e sgs))
     = cost_basis (positions (strategy (foldl (apply_signal cfg pr ts) e sgs)))"
  by (induction sgs arbitrary: e) (simp_all add: apply_signal_cost)

lemma process_bar_cost:
  assumes "total_cost (strategy e) = cost_basis (positions (strategy e))"
    and "process_bar cfg row e = Inr e'"
  shows "total_cost (strategy e') = cost_basis (positions (strategy e'))"
proof -
  define e1 where "e1 = e\<lparr>equity_curve := equity_curve e @ [cash e + get_position_value (strategy e) (Close row)]\<rparr>"
  have r1: "total_cost (strategy e1) = cost_basis (positions (strategy e1))"
    using assms(1) by (simp add: e1_def)
  obtain pr sgs where "e' = foldl (apply_signal cfg pr (Date row)) e1 sgs"
    using assms(2) unfolding process_bar_def Let_def e1_def
    by (auto split: sum.splits)
  then show ?thesis using r1 by (simp add: foldl_apply_signal_cost)
qed

lemma run_bars_cost:
  "total_cost (strategy e) = cost_basis (positions (strategy e)) \<Longrightarrow>
   run_bars cfg rows e = Inr e' \<Longrightarrow>
   total_cost (strategy e') = cost_basis (positions (strategy e'))"
proof (induction rows arbitrary: e)
  case Nil
  then show ?case by simp
next
  case (Cons row rows)
  from Cons.prems(2) obtain e1 where a: "process_bar cfg row e = Inr e1"
    and b: "run_bars cfg rows e1 = Inr e'"
    by (auto split: sum.splits)
  from process_bar_cost[OF Cons.prems(1) a] b show ?case by (rule Cons.IH)
qed

text \<open>
  Claim C9. \<open>close_all\<close> changes the strategy only in \<open>positions\<close> (emptied) and
  \<open>total_position\<close> (zeroed): \<open>total_cost\<close>, \<open>last_buy_price\<close> and \<open>last_sell_price\<close>
  keep their values. After the bar loop of a run \<open>total_cost\<close> is the cost basis of the
  open lots, so after the close it still holds the cost basis of the lots just closed. An
  \<open>execute_sell\<close> that empties the ledger sets both anchors to 0, whereas the run over
  \<open>open_bars\<close> ends with an empty ledger, buy anchor 100 and \<open>total_cost\<close> 100.
\<close>

theorem close_all_keeps_anchors_and_cost:
  "strategy (close_all cfg p ts e) = (strategy e)\<lparr>positions := [], total_position := 0\<rparr>
   \<and> total_cost (strategy (close_all cfg p ts e)) = total_cost (strategy e)
   \<and> last_buy_price (strategy (close_all cfg p ts e)) = last_buy_price (strategy e)
   \<and> last_sell_price (strategy (close_all cfg p ts e)) = last_sell_price (strategy e)
   \<and> (run_bars cfg rows (init_engine cfg) = Inr e \<longrightarrow>
        total_cost (strategy (close_all cfg p ts e)) = cost_basis (positions (strategy e)))
   \<and> (positions (snd (execute_sell p a s)) = [] \<longrightarrow>
        last_buy_price (snd (execute_sell p a s)) = 0
        \<and> last_sell_price (snd (execute_sell p a s)) = 0)
   \<and> (case run_engine dip_config open_bars of
         Inl err \<Rightarrow> False
       | Inr e' \<Rightarrow>
           positions (strategy e') = [] \<and> total_position (strategy e') = 0
           \<and> last_buy_price (strategy e') = 100 \<and> total_cost (strategy e') = 100)"
proof (intro conjI impI)
  assume "run_bars cfg rows (init_engine cfg) = Inr e"
  then have "total_cost (strategy e) = cost_basis (positions (strategy e))"
    by (rule run_bars_cost[rotated]) (simp add: init_engine_def init_strategy_def cost_basis_def)
  then show "total_cost (strategy (close_all cfg p ts e)) = cost_basis (positions (strategy e))"
    by (simp add: close_all_strategy)
next
  assume "positions (snd (execute_sell p a s)) = []"
  then show "last_buy_price (snd (execute_sell p a s)) = 0"
    and "last_sell_price (snd (execute_sell p a s)) = 0"
    by (auto simp: execute_sell_def split: prod.splits if_splits)
next
  show "case run_engine dip_config open_bars of
         Inl err \<Rightarrow> False
       | Inr e' \<Rightarrow>
           positions (strategy e') = [] \<and> total_position (strategy e') = 0
           \<and> last_buy_price (strategy e') = 100 \<and> total_cost (strategy e') = 100"
    by (simp add: run_engine_open)
qed (simp_all add: close_all_strategy)

theorem close_all_keeps_anchors_and_cost_witness:
  "total_cost (strategy (close_all dip_config 50 ''d2'' open_engine))
     = cost_basis (positions (strategy open_engine))
   \<and> cost_basis (positions (strategy open_engine)) = 100
   \<and> positions (strategy (close_all dip_config 50 ''d2'' open_engine)) = []
   \<and> last_buy_price (strategy (close_all dip_config 50 ''d2'' open_engine)) = 100
   \<and> positions (snd (execute_sell 120 3 two_lots)) = []
   \<and> last_buy_price (snd (execute_sell 120 3 two_lots)) = 0
   \<and> last_sell_price (snd (execute_sell 120 3 two_lots)) = 0"
proof -
  have e: "positions (snd (execute_sell 120 3 two_lots)) = []"
    by (simp add: execute_sell_def two_lots_def sell_loop.simps)
  have c: "cost_basis (positions (strategy open_engine)) = 100"
    by (simp add: cost_basis_def open_engine_def)
  have l: "last_buy_price (strategy open_engine) = 100"
    by (simp add: open_engine_def)
  note t = close_all_keeps_anchors_and_cost[where cfg=dip_config and p=50 and ts="''d2''"
             and e=open_engine and rows=open_bars]
  have A: "total_cost (strategy (close_all dip_config 50 ''d2'' open_engine))
          = cost_basis (positions (strategy open_engine))"
    using t run_bars_open by blast
  have B: "strategy (close_all dip_config 50 ''d2'' open_engine)
          = (strategy open_engine)\<lparr>positions := [], total_position := 0\<rparr>"
    using t by blast
  have B1: "positions (strategy (close_all dip_config 50 ''d2'' open_engine)) = []"
    unfolding B by simp
  have B2: "last_buy_price (strategy (close_all dip_config 50 ''d2'' open_engine)) = 100"
    unfolding B using l by simp
  from close_all_keeps_anchors_and_cost[where p=120 and a=3 and s=two_lots] e
  have C: "last_buy_price (snd (execute_sell 120 3 two_lots)) = 0"
    and D: "last_sell_price (snd (execute_sell 120 3 two_lots)) = 0"
    by blast+
  show ?thesis
    by (intro conjI A c B1 B2 e C D)
qed

section \<open>Cash bookkeeping of the engine\<close>

lemma apply_signal_buy:
  "s_side sg = BUY \<Longrightarrow>
   apply_signal cfg pr ts e sg =
     (if pr < max_position_ratio cfg
         \<and> s_price sg * s_amount sg * (1 + commission_rate cfg) \<le> cash e
      then e\<lparr>cash := cash e - s_price sg * s_amount sg * (1 + commission_rate cfg),
             strategy := execute_buy (s_price sg) (s_amount sg) ts (strategy e),
             trades := trades e @
               [\<lparr>t_timestamp = ts, t_side = ''BUY'', t_price = s_price sg,
                 t_amount = s_amount sg, t_pnl = 0,
                 t_balance = cash e - s_price sg * s_amount sg * (1 + commission_rate cfg),
                 t_reason = s_reason sg\<rparr>]\<rparr>
      else e)"
  by (simp add: apply_signal_def Let_def not_le)



section \<open>Signals returned by \<open>process\<close>\<close>











section \<open>Trade statistics\<close>

lemma str_contains_sides:
  "str_contains ''SELL'' ''SELL''" "str_contains ''SELL'' ''SELL(CLOSE)''"
  "\<not> str_contains ''SELL'' ''BUY''"
  by simp_all

lemma engine_side_sell:
  "engine_side sd \<Longrightarrow> str_contains ''SELL'' sd \<longleftrightarrow> sd \<noteq> ''BUY''"
  unfolding engine_side_def by (elim disjE) simp_all

lemma apply_signal_sides:
  assumes "\<forall>t\<in>set (trades e). engine_side (t_side t)"
  shows "\<forall>t\<in>set (trades (apply_signal cfg pr ts e sg)). engine_side (t_side t)"
proof (cases "s_side sg")
  case BUY
  then show ?thesis using assms by (simp add: apply_signal_buy engine_side_def)
next
  case SELL
  then show ?thesis using assms by (simp add: apply_signal_sell engine_side_def)
qed

lemma foldl_apply_signal_sides:
  "\<forall>t\<in>set (trades e). engine_side (t_side t) \<Longrightarrow>
   \<forall>t\<in>set (trades (foldl (apply_signal cfg pr ts) e sgs)). engine_side (t_side t)"
proof (induction sgs arbitrary: e)
  case Nil
  then show ?case by simp
next
  case (Cons sg sgs)
  have "\<forall>t\<in>set (trades (apply_signal cfg pr ts e sg)). engine_side (t_side t)"
    using Cons.prems by (rule apply_signal_sides)
  then show ?case using Cons.IH by simp
qed

lemma process_bar_sides:
  assumes "\<forall>t\<in>set (trades e). engine_side (t_side t)" and "process_bar cfg row e = Inr e'"
  shows "\<forall>t\<in>set (trades e'). engine_side (t_side t)"
proof -
  define e1 where "e1 = e\<lparr>equity_curve := equity_curve e @ [cash e + get_position_value (strategy e) (Close row)]\<rparr>"
  have r1: "\<forall>t\<in>set (trades e1). engine_side (t_side t)" using assms(1) by (simp add: e1_def)
  obtain pr sgs where "e' = foldl (apply_signal cfg pr (Date row)) e1 sgs"
    using assms(2) unfolding process_bar_def Let_def e1_def
    by (auto split: sum.splits)
  then show ?thesis using foldl_apply_signal_sides[OF r1] by simp
qed

lemma run_bars_sides:
  "\<forall>t\<in>set (trades e). engine_side (t_side t) \<Longrightarrow> run_bars cfg rows e = Inr e' \<Longrightarrow>
   \<forall>t\<in>set (trades e'). engine_side (t_side t)"
proof (induction rows arbitrary: e)
  case Nil
  then show ?case by simp
next
  case (Cons row rows)
  from Cons.prems(2) obtain e1 where a: "process_bar cfg row e = Inr e1"
    and b: "run_bars cfg rows e1 = Inr e'"
    by (auto split: sum.splits)
  from process_bar_sides[OF Cons.prems(1) a] b show ?case by (rule Cons.IH)
qed

lemma close_all_sides:
  assumes "\<forall>t\<in>set (trades e). engine_side (t_side t)"
  shows "\<forall>t\<in>set (trades (close_all cfg p ts e)). engine_side (t_side t)"
proof -
  have "\<forall>t\<in>set (trades (foldl (close_position cfg p ts) e ps)). engine_side (t_side t)" for ps
    using assms
  proof (induction ps arbitrary: e)
    case Nil
    then show ?case by simp
  next
    case (Cons pos ps)
    have "\<forall>t\<in>set (trades (close_position cfg p ts e pos)). engine_side (t_side t)"
      using Cons.prems by (simp add: close_position_def Let_def engine_side_def)
    then show ?case using Cons.IH by simp
  qed
  then show ?thesis by (simp add: close_all_def Let_def)
qed

lemma run_engine_sides:
  assumes "run_engine cfg rows = Inr e'"
  shows "\<forall>t\<in>set (trades e'). engine_side (t_side t)"
proof -
  from assms obtain e where a: "run_bars cfg rows (init_engine cfg) = Inr e"
    and b: "e' = close_all cfg (Close (last rows)) (Date (last rows)) e"
    unfolding run_engine_def by (auto split: sum.splits if_splits)
  have "\<forall>t\<in>set (trades (init_engine cfg)). engine_side (t_side t)"
    by (simp add: init_engine_def)
  then have "\<forall>t\<in>set (trades e). engine_side (t_side t)"
    using a by (rule run_bars_sides)
  then show ?thesis unfolding b by (rule close_all_sides)
qed

lemma filter_cong_set: "(\<And>x. x \<in> set xs \<Longrightarrow> P x = Q x) \<Longrightarrow> filter P xs = filter Q xs"
  by (rule filter_cong) simp_all

lemma length_filter_split:
  fixes f :: "'a \<Rightarrow> real"
  shows "length (filter (\<lambda>t. 0 < f t) xs) + length (filter (\<lambda>t. f t \<le> 0) xs) = length xs"
  by (induction xs) auto

text \<open>
  Claim C8. \<open>calculate_result\<close> counts in \<open>total_trades\<close>, \<open>winning_trades\<close> and
  \<open>losing_trades\<close> only the trades whose side contains \<^verbatim>\<open>SELL\<close>: the sides
  \<^verbatim>\<open>SELL\<close> and \<^verbatim>\<open>SELL(CLOSE)\<close> do, \<^verbatim>\<open>BUY\<close> does not, and a run writes no
  other side, so after a run the counted trades are those that are not buys. A counted
  trade is a win when its profit is above 0 and a loss when it is at most 0, so wins plus
  losses is the total, and the win rate is wins over total when the total is positive and
  0 otherwise. A result is returned whenever the initial capital is not 0.
\<close>

theorem trade_statistics:
  "(calculate_result cfg e = Inr r \<longrightarrow>
      total_trades r = length (filter (\<lambda>t. str_contains ''SELL'' (t_side t)) (trades e))
      \<and> winning_trades r
          = length (filter (\<lambda>t. str_contains ''SELL'' (t_side t) \<and> 0 < t_pnl t) (trades e))
      \<and> losing_trades r
          = length (filter (\<lambda>t. str_contains ''SELL'' (t_side t) \<and> t_pnl t \<le> 0) (trades e))
      \<and> winning_trades r + losing_trades r = total_trades r
      \<and> win_rate r = (if 0 < total_trades r
                       then real (winning_trades r) / real (total_trades r) else 0))
   \<and> str_contains ''SELL'' ''SELL'' \<and> str_contains ''SELL'' ''SELL(CLOSE)''
   \<and> \<not> str_contains ''SELL'' ''BUY''
   \<and> (run_engine cfg rows = Inr e \<and> calculate_result cfg e = Inr r \<longrightarrow>
        (\<forall>t\<in>set (trades e). engine_side (t_side t))
        \<and> total_trades r = length (filter (\<lambda>t. t_side t \<noteq> ''BUY'') (trades e)))
   \<and> (initial_capital cfg \<noteq> 0 \<longrightarrow> (\<exists>r'. calculate_result cfg e = Inr r'))"
proof -
  define sells where "sells = filter (\<lambda>t. str_contains ''SELL'' (t_side t)) (trades e)"
  have A: "total_trades r = length sells
      \<and> winning_trades r = length (filter (\<lambda>t. 0 < t_pnl t) sells)
      \<and> losing_trades r = length (filter (\<lambda>t. t_pnl t \<le> 0) sells)
      \<and> win_rate r = (if 0 < length sells
                       then real (length (filter (\<lambda>t. 0 < t_pnl t) sells)) / real (length sells)
                       else 0)"
    if "calculate_result cfg e = Inr r"
    using that unfolding calculate_result_def Let_def sells_def[symmetric]
    by (auto split: if_splits prod.splits)
  have B: "total_trades r = length (filter (\<lambda>t. str_contains ''SELL'' (t_side t)) (trades e))
      \<and> winning_trades r
          = length (filter (\<lambda>t. str_contains ''SELL'' (t_side t) \<and> 0 < t_pnl t) (trades e))
      \<and> losing_trades r
          = length (filter (\<lambda>t. str_contains ''SELL'' (t_side t) \<and> t_pnl t \<le> 0) (trades e))
      \<and> winning_trades r + losing_trades r = total_trades r
      \<and> win_rate r = (if 0 < total_trades r
                       then real (winning_trades r) / real (total_trades r) else 0)"
    if c: "calculate_result cfg e = Inr r"
  proof -
    note a = A[OF c]
    have w: "filter (\<lambda>t. 0 < t_pnl t) sells
           = filter (\<lambda>t. str_contains ''SELL'' (t_side t) \<and> 0 < t_pnl t) (trades e)"
      and l: "filter (\<lambda>t. t_pnl t \<le> 0) sells
           = filter (\<lambda>t. str_contains ''SELL'' (t_side t) \<and> t_pnl t \<le> 0) (trades e)"
      unfolding sells_def by (simp_all add: conj_commute)
    have s: "winning_trades r + losing_trades r = total_trades r"
      using a length_filter_split[of t_pnl sells] by simp
    show ?thesis
      using a s unfolding w[symmetric] l[symmetric] sells_def[symmetric] by simp
  qed
  have C: "(\<forall>t\<in>set (trades e). engine_side (t_side t))
        \<and> total_trades r = length (filter (\<lambda>t. t_side t \<noteq> ''BUY'') (trades e))"
    if "run_engine cfg rows = Inr e \<and> calculate_result cfg e = Inr r"
  proof -
    have sd: "\<forall>t\<in>set (trades e). engine_side (t_side t)"
      using that run_engine_sides by blast
    have "filter (\<lambda>t. str_contains ''SELL'' (t_side t)) (trades e)
        = filter (\<lambda>t. t_side t \<noteq> ''BUY'') (trades e)"
      by (rule filter_cong_set) (use sd engine_side_sell in blast)
    then show ?thesis using B that sd by simp
  qed
  have D: "\<exists>r'. calculate_result cfg e = Inr r'" if "initial_capital cfg \<noteq> 0"
    using that unfolding calculate_result_def Let_def by (simp split: prod.splits)
  show ?thesis
    using B C D str_contains_sides by blast
qed

theorem trade_statistics_witness:
  "(case calculate_result dip_config stats_engine of
      Inl err \<Rightarrow> False
    | Inr r \<Rightarrow> total_trades r = 3 \<and> winning_trades r = 1 \<and> losing_trades r = 2
               \<and> win_rate r = 1 / 3)
   \<and> (case run dip_config dip_bars of
      Inl err \<Rightarrow> False
    | Inr r \<Rightarrow> total_trades r = 1 \<and> length (r_trades r) = 2)"
proof -
  have n: "initial_capital dip_config \<noteq> 0" by (simp add: dip_config_def)
  obtain r where r: "calculate_result dip_config stats_engine = Inr r"
    using trade_statistics[where cfg=dip_config and e=stats_engine] n by blast
  have tr: "trades stats_engine = [mk_trade ''BUY'' 0, mk_trade ''SELL'' 5, mk_trade ''SELL'' 0,
                mk_trade ''SELL(CLOSE)'' (- 3)]"
    by (simp add: stats_engine_def)
  have "total_trades r = 3 \<and> winning_trades r = 1 \<and> losing_trades r = 2 \<and> win_rate r = 1 / 3"
    using trade_statistics[where cfg=dip_config and e=stats_engine and r=r] r
    by (simp add: tr mk_trade_def)
  moreover
  obtain e where e: "run_engine dip_config dip_bars = Inr e" and tl: "length (trades e) = 2"
    and nb: "length (filter (\<lambda>t. t_side t \<noteq> ''BUY'') (trades e)) = 1"
    using run_engine_dip by simp
  obtain r2 where r2: "calculate_result dip_config e = Inr r2"
    using trade_statistics[where cfg=dip_config and e=e] n by blast
  have "total_trades r2 = 1"
    using trade_statistics[where cfg=dip_config and e=e and r=r2 and rows=dip_bars] e r2 nb
    by simp
  moreover have "r_trades r2 = trades e"
    using r2 by (auto simp: calculate_result_def Let_def split: if_splits prod.splits)
  ultimately show ?thesis
    by (simp add: r run_def e r2 tl)
qed

section \<open>Maximum drawdown\<close>

text \<open>
  Whatever the curve, the loop ends with \<open>peak\<close> at the largest value seen, so the stored
  \<open>max_drawdown\<close> is the overall maximum of the curve times the largest drawdown fraction.
\<close>

lemma drawdown_loop_peak:
  "fst (drawdown_loop eqs peak max_dd) = Max (set (peak # eqs))"
proof (induction eqs arbitrary: peak max_dd)
  case Nil
  then show ?case by simp
next
  case (Cons eq eqs)
  have "Max (insert (if peak < eq then eq else peak) (set eqs)) = Max (insert peak (insert eq (set eqs)))"
  proof (cases "peak < eq")
    case True
    then have "Max (insert peak (insert eq (set eqs))) = Max (insert eq (set eqs))"
      by (subst Max_insert) (auto simp: max_def intro: order_trans[OF _ Max_ge[of _ eq]])
    with True show ?thesis by simp
  next
    case False
    then have "Max (insert peak (insert eq (set eqs))) = Max (insert peak (set eqs))"
      by (simp add: insert_commute[of peak eq] max_def Max_insert2 order_trans[OF _ Max_ge[of _ peak]])
    with False show ?thesis by simp
  qed
  with Cons show ?case by (simp add: Let_def)
qed

text \<open>
  Claim C1, evaluated on a run. With \<open>dip_config\<close> the three bars \<open>dip_bars\<close> (closes
  100, 50, 200) give the equity curve 100, 50, 200. The largest drawdown fraction, 1/2,
  is attained at the second point, where the running peak is 100, so the claimed absolute
  drawdown is 50 (\<open>spec_max_drawdown\<close>). The result stores 100: the peak 200 reached
  afterwards times 1/2.
\<close>

theorem max_drawdown_uses_final_peak:
  "(case run dip_config dip_bars of
      Inl err \<Rightarrow> False
    | Inr r \<Rightarrow>
        r_equity_curve r = [100, 50, 200] \<and> max_drawdown_pct r = 1 / 2
        \<and> max_drawdown r = 100 \<and> spec_max_drawdown (r_equity_curve r) = 50)"
  by (simp add: run_def run_engine_def dip_bars_def flat_bar_def dip_config_def process_bar_def
      process_def init_engine_def init_strategy_def detect_market_state_def np_clip_def
      get_position_value_def apply_signal_def execute_buy_def execute_sell_def sell_signal_def
      close_all_def close_position_def sell_loop.simps calculate_result_def spec_max_drawdown_def
      Let_def)

end
